theory Spec2Isabelle
  imports Main "HOL-Library.AList"
begin

section \<open>The remote object: calicov3.IPPool\<close>

text \<open>
  The Calico API declares \<^verbatim>\<open>type IPIPMode string\<close> and \<^verbatim>\<open>type VXLANMode string\<close>:
  two distinct named string types, each with three named constants. They are modelled
  as two wrappers around \<open>string\<close>, so that a value read from the server may carry any
  string while the two types stay apart.
\<close>

datatype IPIPMode = IPIPModeOf string

datatype VXLANMode = VXLANModeOf string

definition IPIPModeNever :: IPIPMode where
  "IPIPModeNever = IPIPModeOf ''Never''"

definition IPIPModeAlways :: IPIPMode where
  "IPIPModeAlways = IPIPModeOf ''Always''"

definition IPIPModeCrossSubnet :: IPIPMode where
  "IPIPModeCrossSubnet = IPIPModeOf ''CrossSubnet''"

definition VXLANModeNever :: VXLANMode where
  "VXLANModeNever = VXLANModeOf ''Never''"

definition VXLANModeAlways :: VXLANMode where
  "VXLANModeAlways = VXLANModeOf ''Always''"

definition VXLANModeCrossSubnet :: VXLANMode where
  "VXLANModeCrossSubnet = VXLANModeOf ''CrossSubnet''"

text \<open>
  Of \<^verbatim>\<open>calicov3.IPPoolSpec\<close> and \<^verbatim>\<open>calicov3.IPPool\<close> the provider reads and writes the
  fields below; every other field of the Go structs keeps its zero value throughout.
  Go's \<^verbatim>\<open>int\<close> is modelled as \<open>int\<close>: the block size is only copied, never computed with.
  A \<^verbatim>\<open>map[string]string\<close> is an association list.
\<close>

record IPPoolSpec =
  CIDR :: string
  VXLANMode :: VXLANMode
  IPIPMode :: IPIPMode
  NATOutgoing :: bool
  Disabled :: bool
  DisableBGPExport :: bool
  BlockSize :: int

record IPPool =
  Name :: string
  ResourceVersion :: string
  Annotations :: "(string \<times> string) list"
  Spec :: IPPoolSpec

text \<open>The zero values \<^verbatim>\<open>calicov3.IPPoolSpec{}\<close> and \<^verbatim>\<open>calicov3.IPPool{}\<close>.\<close>

definition IPPoolSpec_zero :: IPPoolSpec where
  "IPPoolSpec_zero =
     \<lparr>CIDR = [], VXLANMode = VXLANModeOf [], IPIPMode = IPIPModeOf [],
      NATOutgoing = False, Disabled = False, DisableBGPExport = False, BlockSize = 0\<rparr>"

definition IPPool_zero :: IPPool where
  "IPPool_zero = \<lparr>Name = [], ResourceVersion = [], Annotations = [], Spec = IPPoolSpec_zero\<rparr>"

section \<open>Mode translation\<close>

text \<open>
  \<^verbatim>\<open>getVXLANMode\<close> and \<^verbatim>\<open>getIPIPMode\<close>: a \<^verbatim>\<open>switch\<close> on the string with two cases
  and a fall-through \<^verbatim>\<open>return\<close> after it.
\<close>

definition getVXLANMode :: "string \<Rightarrow> VXLANMode" where
  "getVXLANMode mode =
     (if mode = ''Always'' then VXLANModeAlways
      else if mode = ''CrossSubnet'' then VXLANModeCrossSubnet
      else VXLANModeNever)"

definition getIPIPMode :: "string \<Rightarrow> IPIPMode" where
  "getIPIPMode mode =
     (if mode = ''Always'' then IPIPModeAlways
      else if mode = ''CrossSubnet'' then IPIPModeCrossSubnet
      else IPIPModeNever)"

section \<open>Dynamic values, errors and panics\<close>

text \<open>
  A Go \<^verbatim>\<open>interface{}\<close> value as the schema framework hands it over: a string, an int,
  a bool or a \<^verbatim>\<open>map[string]interface{}\<close>. A Go map is an association list; the order
  of the list stands for the order in which \<^verbatim>\<open>range\<close> visits the map in that run.
\<close>

datatype iface = VString string | VInt int | VBool bool | VMap "(string \<times> iface) list"

text \<open>A failed type assertion \<^verbatim>\<open>x.(T)\<close> panics.\<close>

datatype panic = TypeAssertionPanic

text \<open>
  Go \<^verbatim>\<open>error\<close> values: the failures the API client reports, by the kinds a caller can
  tell apart, and the value of \<^verbatim>\<open>fmt.Errorf(format, args...)\<close>, kept as the format
  string with its arguments.
\<close>

datatype error =
    NotFound string
  | AlreadyExists string
  | Conflict string
  | Unavailable string
  | Errorf string "string list"

text \<open>\<^verbatim>\<open>diag.Diagnostics\<close>; \<^verbatim>\<open>diag.FromErr\<close> wraps one error, \<^verbatim>\<open>nil\<close> and
  \<^verbatim>\<open>diag.Diagnostics{}\<close> are both the empty list.\<close>

datatype Diagnostic = ErrorDiagnostic error

type_synonym Diagnostics = "Diagnostic list"

definition FromErr :: "error \<Rightarrow> Diagnostics" where
  "FromErr err = [ErrorDiagnostic err]"

section \<open>Annotation validation\<close>

text \<open>
  \<^verbatim>\<open>utilValidation.IsQualifiedName\<close> (Kubernetes) and \<^verbatim>\<open>strings.ToLower\<close> (the Go
  library) are not part of this package: both are parameters of the model.

  The inner loop of \<^verbatim>\<open>validateAnnotations\<close>:
  \<^verbatim>\<open>for _, e := range errors { es = append(es, fmt.Errorf("%s (%q) %s", key, k, e)) }\<close>
\<close>

fun append_errors :: "string \<Rightarrow> string \<Rightarrow> error list \<Rightarrow> string list \<Rightarrow> error list" where
  "append_errors key k es [] = es"
| "append_errors key k es (e # errors) =
     append_errors key k (es @ [Errorf ''%s (%q) %s'' [key, k, e]]) errors"

text \<open>The outer loop \<^verbatim>\<open>for k := range m\<close>, with \<open>es\<close> the errors collected so far.\<close>

fun validateAnnotations_range ::
  "(string \<Rightarrow> string list) \<Rightarrow> (string \<Rightarrow> string) \<Rightarrow> string \<Rightarrow> (string \<times> iface) list
     \<Rightarrow> error list \<Rightarrow> error list" where
  "validateAnnotations_range IsQualifiedName ToLower key [] es = es"
| "validateAnnotations_range IsQualifiedName ToLower key ((k, v) # m) es =
     (let errors = IsQualifiedName (ToLower k) in
      if length errors > 0
      then validateAnnotations_range IsQualifiedName ToLower key m (append_errors key k es errors)
      else validateAnnotations_range IsQualifiedName ToLower key m es)"

text \<open>
  \<^verbatim>\<open>validateAnnotations(value, key) (ws []string, es []error)\<close>: the type assertion
  \<^verbatim>\<open>value.(map[string]interface{})\<close> panics on anything but a map; \<open>ws\<close> stays empty.
\<close>

definition validateAnnotations ::
  "(string \<Rightarrow> string list) \<Rightarrow> (string \<Rightarrow> string) \<Rightarrow> iface \<Rightarrow> string
     \<Rightarrow> panic + (string list \<times> error list)" where
  "validateAnnotations IsQualifiedName ToLower v key =
     (case v of
        VMap m \<Rightarrow> Inr ([], validateAnnotations_range IsQualifiedName ToLower key m [])
      | _ \<Rightarrow> Inl TypeAssertionPanic)"

section \<open>The declared schema\<close>










section \<open>Local resource data and field mapping\<close>

text \<open>
  \<^verbatim>\<open>schema.ResourceData\<close>: the identifier (\<^verbatim>\<open>d.Id()\<close>, \<^verbatim>\<open>d.SetId\<close>) and one field per
  attribute path the provider reads with \<^verbatim>\<open>d.Get\<close>. The schema fixes the Go type behind
  each path, so the assertions \<^verbatim>\<open>.(string)\<close>, \<^verbatim>\<open>.(int)\<close>, \<^verbatim>\<open>.(bool)\<close> and
  \<^verbatim>\<open>.(map[string]interface{})\<close> on them are typed fields here; the values inside the
  annotations map stay dynamic.
\<close>

record ResourceData =
  Id_str :: string
  metadata_0_name :: string
  metadata_0_resource_version :: string
  metadata_0_annotations :: "(string \<times> iface) list"
  spec_0_block_size :: int
  spec_0_cidr :: string
  spec_0_disabled :: bool
  spec_0_ipip_mode :: string
  spec_0_vxlan_mode :: string
  spec_0_nat_outgoing :: bool
  spec_0_disable_bgp_export :: bool

definition SetId :: "ResourceData \<Rightarrow> string \<Rightarrow> ResourceData" where
  "SetId d v = d\<lparr>Id_str := v\<rparr>"

text \<open>
  \<^verbatim>\<open>d.Set("metadata", ...)\<close> and \<^verbatim>\<open>d.Set("spec", ...)\<close> with the one-element lists that
  \<^verbatim>\<open>setResourceAttributes\<close> builds. The framework's writer accepts values of the
  schema's types, so both return no error; the caller's error branches are kept.
\<close>

definition Set_metadata ::
  "ResourceData \<Rightarrow> string \<Rightarrow> string \<Rightarrow> (string \<times> string) list \<Rightarrow> error + ResourceData" where
  "Set_metadata d name resource_version annotations =
     Inr (d\<lparr>metadata_0_name := name,
            metadata_0_resource_version := resource_version,
            metadata_0_annotations := map (\<lambda>(k, v). (k, VString v)) annotations\<rparr>)"

definition Set_spec :: "ResourceData \<Rightarrow> IPPoolSpec \<Rightarrow> error + ResourceData" where
  "Set_spec d spec =
     Inr (d\<lparr>spec_0_block_size := BlockSize spec,
            spec_0_cidr := CIDR spec,
            spec_0_disabled := Disabled spec,
            spec_0_ipip_mode := (case IPIPMode spec of IPIPModeOf s \<Rightarrow> s),
            spec_0_vxlan_mode := (case VXLANMode spec of VXLANModeOf s \<Rightarrow> s),
            spec_0_nat_outgoing := NATOutgoing spec,
            spec_0_disable_bgp_export := DisableBGPExport spec\<rparr>)"

text \<open>\<^verbatim>\<open>setResourceAttributes(d, r)\<close>: returns its error and the resource data as left.\<close>

definition setResourceAttributes :: "ResourceData \<Rightarrow> IPPool \<Rightarrow> error option \<times> ResourceData" where
  "setResourceAttributes d r =
     (let d1 = SetId d (Name r) in
      case Set_metadata d1 (Name r) (ResourceVersion r) (Annotations r) of
        Inl err \<Rightarrow> (Some err, d1)
      | Inr d2 \<Rightarrow>
          (case Set_spec d2 (Spec r) of
             Inl err \<Rightarrow> (Some err, d2)
           | Inr d3 \<Rightarrow> (None, d3)))"

text \<open>
  \<^verbatim>\<open>expandStringMap\<close>: the loop \<^verbatim>\<open>for k, v := range m { result[k] = v.(string) }\<close>, which
  panics at the first value that is not a string.
\<close>

fun expandStringMap_range ::
  "(string \<times> iface) list \<Rightarrow> (string \<times> string) list \<Rightarrow> panic + (string \<times> string) list" where
  "expandStringMap_range [] result = Inr result"
| "expandStringMap_range ((k, v) # m) result =
     (case v of
        VString str \<Rightarrow> expandStringMap_range m (AList.update k str result)
      | _ \<Rightarrow> Inl TypeAssertionPanic)"

definition expandStringMap :: "(string \<times> iface) list \<Rightarrow> panic + (string \<times> string) list" where
  "expandStringMap m = expandStringMap_range m []"

text \<open>
  \<^verbatim>\<open>setIPPoolAttributes(d, r)\<close>: fills a fresh spec, then the four fields of \<open>r\<close>. The only
  error it returns is \<^verbatim>\<open>nil\<close>.
\<close>

definition setIPPoolAttributes :: "ResourceData \<Rightarrow> IPPool \<Rightarrow> panic + (error option \<times> IPPool)" where
  "setIPPoolAttributes d r =
     (let spec = IPPoolSpec_zero
            \<lparr>BlockSize := spec_0_block_size d,
             CIDR := spec_0_cidr d,
             Disabled := spec_0_disabled d,
             IPIPMode := getIPIPMode (spec_0_ipip_mode d),
             VXLANMode := getVXLANMode (spec_0_vxlan_mode d),
             NATOutgoing := spec_0_nat_outgoing d,
             DisableBGPExport := spec_0_disable_bgp_export d\<rparr>
      in case expandStringMap (metadata_0_annotations d) of
           Inl p \<Rightarrow> Inl p
         | Inr annotations \<Rightarrow>
             Inr (None,
                  r\<lparr>Name := metadata_0_name d,
                    ResourceVersion := metadata_0_resource_version d,
                    Annotations := annotations,
                    Spec := spec\<rparr>))"

section \<open>The remote API, the lock and the lifecycle operations\<close>

text \<open>
  What an operation does to the outside is recorded in a world: the state of the mutex
  embedded in \<^verbatim>\<open>Meta\<close>, the state \<open>remote\<close> of the API server (of any type \<open>'r\<close>), and
  the trace of lock operations and remote calls in the order they happen.
\<close>

datatype call = CallGet string | CallCreate IPPool | CallUpdate IPPool | CallDelete string

datatype event = MutexLock | MutexUnlock | Remote call

record 'r world =
  locked :: bool
  trace :: "event list"
  remote :: 'r

text \<open>
  The generated client \<^verbatim>\<open>p.ProjectcalicoV3().IPPools()\<close> is an external collaborator: a
  parameter, one function per verb, each answering from the server state and returning
  the new one. The object passed to Create and Update is passed by value: the generated
  client decodes the reply into a fresh object and leaves its argument as it is.
\<close>

record 'r Clientset =
  IPPools_Get :: "'r \<Rightarrow> string \<Rightarrow> (error + IPPool) \<times> 'r"
  IPPools_Create :: "'r \<Rightarrow> IPPool \<Rightarrow> (error + IPPool) \<times> 'r"
  IPPools_Update :: "'r \<Rightarrow> IPPool \<Rightarrow> (error + IPPool) \<times> 'r"
  IPPools_Delete :: "'r \<Rightarrow> string \<Rightarrow> error option \<times> 'r"

text \<open>
  The type \<^verbatim>\<open>Meta\<close> and its method \<^verbatim>\<open>GetCalicoConfiguration\<close> are declared in another
  file of the package: the method's outcome, an error or the client handle, is a
  parameter. \<^verbatim>\<open>debug\<close> only logs and is left out.
\<close>

record 'r Meta =
  GetCalicoConfiguration :: "error + 'r Clientset"

text \<open>
  \<^verbatim>\<open>m.Lock()\<close> and \<^verbatim>\<open>m.Unlock()\<close>. \<open>Lock\<close> returns once the mutex is granted to the caller;
  the wait for another holder is not part of this sequential model.
\<close>

definition Meta_Lock :: "'r world \<Rightarrow> 'r world" where
  "Meta_Lock w = w\<lparr>locked := True, trace := trace w @ [MutexLock]\<rparr>"

definition Meta_Unlock :: "'r world \<Rightarrow> 'r world" where
  "Meta_Unlock w = w\<lparr>locked := False, trace := trace w @ [MutexUnlock]\<rparr>"

text \<open>One remote call: the server answers and moves on, the call is appended to the trace.\<close>

definition remote_Get :: "'r Clientset \<Rightarrow> string \<Rightarrow> 'r world \<Rightarrow> (error + IPPool) \<times> 'r world" where
  "remote_Get p name w =
     (case IPPools_Get p (remote w) name of
        (res, s) \<Rightarrow> (res, w\<lparr>trace := trace w @ [Remote (CallGet name)], remote := s\<rparr>))"

definition remote_Create :: "'r Clientset \<Rightarrow> IPPool \<Rightarrow> 'r world \<Rightarrow> (error + IPPool) \<times> 'r world" where
  "remote_Create p ippool w =
     (case IPPools_Create p (remote w) ippool of
        (res, s) \<Rightarrow> (res, w\<lparr>trace := trace w @ [Remote (CallCreate ippool)], remote := s\<rparr>))"

definition remote_Update :: "'r Clientset \<Rightarrow> IPPool \<Rightarrow> 'r world \<Rightarrow> (error + IPPool) \<times> 'r world" where
  "remote_Update p ippool w =
     (case IPPools_Update p (remote w) ippool of
        (res, s) \<Rightarrow> (res, w\<lparr>trace := trace w @ [Remote (CallUpdate ippool)], remote := s\<rparr>))"

definition remote_Delete :: "'r Clientset \<Rightarrow> string \<Rightarrow> 'r world \<Rightarrow> error option \<times> 'r world" where
  "remote_Delete p name w =
     (case IPPools_Delete p (remote w) name of
        (res, s) \<Rightarrow> (res, w\<lparr>trace := trace w @ [Remote (CallDelete name)], remote := s\<rparr>))"

text \<open>
  \<^verbatim>\<open>getIPPool\<close>: \<^verbatim>\<open>m.Lock()\<close>, \<^verbatim>\<open>defer m.Unlock()\<close>, the fetch, and the deferred unlock
  on either return.
\<close>

definition getIPPool ::
  "'r Meta \<Rightarrow> 'r Clientset \<Rightarrow> string \<Rightarrow> 'r world \<Rightarrow> (error + IPPool) \<times> 'r world" where
  "getIPPool m p name w =
     (let w1 = Meta_Lock w in
      case remote_Get p name w1 of
        (Inl err, w2) \<Rightarrow> (Inl err, Meta_Unlock w2)
      | (Inr r, w2) \<Rightarrow> (Inr r, Meta_Unlock w2))"

text \<open>\<^verbatim>\<open>resourceIPPoolExists\<close>, returning Go's pair \<^verbatim>\<open>(bool, error)\<close>.\<close>

definition resourceIPPoolExists ::
  "'r Meta \<Rightarrow> ResourceData \<Rightarrow> 'r world \<Rightarrow> (bool \<times> error option) \<times> 'r world" where
  "resourceIPPoolExists m d w =
     (let name = metadata_0_name d in
      case GetCalicoConfiguration m of
        Inl err \<Rightarrow> ((False, Some err), w)
      | Inr p \<Rightarrow>
          (case getIPPool m p name w of
             (Inr _, w1) \<Rightarrow> ((True, None), w1)
           | (Inl err, w1) \<Rightarrow> ((False, Some err), w1)))"

text \<open>\<^verbatim>\<open>resourceIPPoolRead\<close>: the diagnostics, the resource data and the world it leaves.\<close>

definition resourceIPPoolRead ::
  "'r Meta \<Rightarrow> ResourceData \<Rightarrow> 'r world \<Rightarrow> Diagnostics \<times> ResourceData \<times> 'r world" where
  "resourceIPPoolRead m d w =
     (case resourceIPPoolExists m d w of
        ((exists, Some err), w1) \<Rightarrow> (FromErr err, d, w1)
      | ((exists, None), w1) \<Rightarrow>
          if \<not> exists then ([], SetId d [], w1)
          else
            (case GetCalicoConfiguration m of
               Inl err \<Rightarrow> (FromErr err, d, w1)
             | Inr p \<Rightarrow>
                 (let name = metadata_0_name d in
                  case getIPPool m p name w1 of
                    (Inl err, w2) \<Rightarrow> (FromErr err, d, w2)
                  | (Inr r, w2) \<Rightarrow>
                      (case setResourceAttributes d r of
                         (Some err, d') \<Rightarrow> (FromErr err, d', w2)
                       | (None, d') \<Rightarrow> ([], d', w2)))))"

text \<open>
  \<^verbatim>\<open>resourceIPPoolCreate\<close> and \<^verbatim>\<open>resourceIPPoolUpdate\<close>: the pool is built into a zero
  \<^verbatim>\<open>calicov3.IPPool{}\<close>, the reply of the remote call is dropped (\<^verbatim>\<open>_, err = ...\<close>).
\<close>

definition resourceIPPoolCreate ::
  "'r Meta \<Rightarrow> ResourceData \<Rightarrow> 'r world \<Rightarrow> panic + (Diagnostics \<times> ResourceData \<times> 'r world)" where
  "resourceIPPoolCreate m d w =
     (case GetCalicoConfiguration m of
        Inl err \<Rightarrow> Inr (FromErr err, d, w)
      | Inr p \<Rightarrow>
          (case setIPPoolAttributes d IPPool_zero of
             Inl pn \<Rightarrow> Inl pn
           | Inr (Some err, ippool) \<Rightarrow> Inr (FromErr err, d, w)
           | Inr (None, ippool) \<Rightarrow>
               (case remote_Create p ippool w of
                  (Inl err, w1) \<Rightarrow> Inr (FromErr err, d, w1)
                | (Inr _, w1) \<Rightarrow> Inr ([], SetId d (Name ippool), w1))))"

definition resourceIPPoolUpdate ::
  "'r Meta \<Rightarrow> ResourceData \<Rightarrow> 'r world \<Rightarrow> panic + (Diagnostics \<times> ResourceData \<times> 'r world)" where
  "resourceIPPoolUpdate m d w =
     (case GetCalicoConfiguration m of
        Inl err \<Rightarrow> Inr (FromErr err, d, w)
      | Inr p \<Rightarrow>
          (case setIPPoolAttributes d IPPool_zero of
             Inl pn \<Rightarrow> Inl pn
           | Inr (Some err, ippool) \<Rightarrow> Inr (FromErr err, d, w)
           | Inr (None, ippool) \<Rightarrow>
               (case remote_Update p ippool w of
                  (Inl err, w1) \<Rightarrow> Inr (FromErr err, d, w1)
                | (Inr _, w1) \<Rightarrow> Inr ([], SetId d (Name ippool), w1))))"

text \<open>\<^verbatim>\<open>resourceIPPoolDelete\<close>: it never writes to the resource data.\<close>

definition resourceIPPoolDelete ::
  "'r Meta \<Rightarrow> ResourceData \<Rightarrow> 'r world \<Rightarrow> Diagnostics \<times> ResourceData \<times> 'r world" where
  "resourceIPPoolDelete m d w =
     (let name = metadata_0_name d in
      case GetCalicoConfiguration m of
        Inl err \<Rightarrow> (FromErr err, d, w)
      | Inr p \<Rightarrow>
          (case remote_Delete p name w of
             (Some err, w1) \<Rightarrow> (FromErr err, d, w1)
           | (None, w1) \<Rightarrow> ([], d, w1)))"

section \<open>Concrete instances for evaluation\<close>

text \<open>
  An in-memory API server in the manner of the client library's fake clientset: the
  state is the list of stored pools by name. It answers \<open>NotFound\<close> for a missing name,
  \<open>AlreadyExists\<close> on a second create, \<open>Conflict\<close> on a stale version token, and stamps
  every stored object with a version token of its own.
\<close>

definition fake_Get :: "(string \<times> IPPool) list \<Rightarrow> string \<Rightarrow> (error + IPPool) \<times> (string \<times> IPPool) list" where
  "fake_Get s name =
     (case map_of s name of None \<Rightarrow> (Inl (NotFound name), s) | Some r \<Rightarrow> (Inr r, s))"

definition fake_Create :: "(string \<times> IPPool) list \<Rightarrow> IPPool \<Rightarrow> (error + IPPool) \<times> (string \<times> IPPool) list" where
  "fake_Create s r =
     (case map_of s (Name r) of
        Some _ \<Rightarrow> (Inl (AlreadyExists (Name r)), s)
      | None \<Rightarrow> (let r' = r\<lparr>ResourceVersion := ''1''\<rparr> in (Inr r', AList.update (Name r) r' s)))"

definition fake_Update :: "(string \<times> IPPool) list \<Rightarrow> IPPool \<Rightarrow> (error + IPPool) \<times> (string \<times> IPPool) list" where
  "fake_Update s r =
     (case map_of s (Name r) of
        None \<Rightarrow> (Inl (NotFound (Name r)), s)
      | Some old \<Rightarrow>
          (if ResourceVersion r \<noteq> ResourceVersion old then (Inl (Conflict (Name r)), s)
           else (let r' = r\<lparr>ResourceVersion := ResourceVersion old @ ''1''\<rparr>
                 in (Inr r', AList.update (Name r) r' s))))"

definition fake_Delete :: "(string \<times> IPPool) list \<Rightarrow> string \<Rightarrow> error option \<times> (string \<times> IPPool) list" where
  "fake_Delete s name =
     (case map_of s name of
        None \<Rightarrow> (Some (NotFound name), s)
      | Some _ \<Rightarrow> (None, AList.delete name s))"

definition fake_clientset :: "(string \<times> IPPool) list Clientset" where
  "fake_clientset =
     \<lparr>IPPools_Get = fake_Get, IPPools_Create = fake_Create,
      IPPools_Update = fake_Update, IPPools_Delete = fake_Delete\<rparr>"

definition fake_meta :: "(string \<times> IPPool) list Meta" where
  "fake_meta = \<lparr>GetCalicoConfiguration = Inr fake_clientset\<rparr>"

text \<open>A \<open>Meta\<close> whose client cannot be configured.\<close>

definition broken_meta :: "(string \<times> IPPool) list Meta" where
  "broken_meta = \<lparr>GetCalicoConfiguration = Inl (Unavailable ''no kubeconfig'')\<rparr>"

definition world0 :: "(string \<times> IPPool) list \<Rightarrow> (string \<times> IPPool) list world" where
  "world0 s = \<lparr>locked = False, trace = [], remote = s\<rparr>"

text \<open>
  A server that answers Create and Update with an object under a name and a version
  token of its own, never with the object it was sent.
\<close>

definition stamping_clientset :: "unit Clientset" where
  "stamping_clientset =
     \<lparr>IPPools_Get = (\<lambda>s name. (Inl (NotFound name), s)),
      IPPools_Create = (\<lambda>s r. (Inr (r\<lparr>Name := ''srv-'' @ Name r, ResourceVersion := ''42''\<rparr>), s)),
      IPPools_Update = (\<lambda>s r. (Inr (r\<lparr>Name := ''srv-'' @ Name r, ResourceVersion := ''43''\<rparr>), s)),
      IPPools_Delete = (\<lambda>s name. (None, s))\<rparr>"

definition stamping_meta :: "unit Meta" where
  "stamping_meta = \<lparr>GetCalicoConfiguration = Inr stamping_clientset\<rparr>"

text \<open>The resource data of the README's example, before the pool is created.\<close>

definition example_data :: ResourceData where
  "example_data =
     \<lparr>Id_str = [], metadata_0_name = ''test'', metadata_0_resource_version = [],
      metadata_0_annotations = [(''owner'', VString ''net'')],
      spec_0_block_size = 27, spec_0_cidr = ''10.144.1.0/24'', spec_0_disabled = False,
      spec_0_ipip_mode = ''Always'', spec_0_vxlan_mode = ''Never'',
      spec_0_nat_outgoing = True, spec_0_disable_bgp_export = False\<rparr>"

text \<open>The pool that \<open>setIPPoolAttributes\<close> builds from it.\<close>

definition example_pool :: IPPool where
  "example_pool =
     \<lparr>Name = ''test'', ResourceVersion = [], Annotations = [(''owner'', ''net'')],
      Spec = \<lparr>CIDR = ''10.144.1.0/24'', VXLANMode = VXLANModeOf ''Never'',
              IPIPMode = IPIPModeOf ''Always'', NATOutgoing = True, Disabled = False,
              DisableBGPExport = False, BlockSize = 27\<rparr>\<rparr>"

text \<open>The same resource with VXLAN across subnets instead of IP-in-IP, and its pool.\<close>

definition vxlan_data :: ResourceData where
  "vxlan_data =
     \<lparr>Id_str = [], metadata_0_name = ''test'', metadata_0_resource_version = [],
      metadata_0_annotations = [(''owner'', VString ''net'')],
      spec_0_block_size = 27, spec_0_cidr = ''10.144.1.0/24'', spec_0_disabled = False,
      spec_0_ipip_mode = ''Never'', spec_0_vxlan_mode = ''CrossSubnet'',
      spec_0_nat_outgoing = True, spec_0_disable_bgp_export = False\<rparr>"

definition vxlan_pool :: IPPool where
  "vxlan_pool =
     \<lparr>Name = ''test'', ResourceVersion = [], Annotations = [(''owner'', ''net'')],
      Spec = \<lparr>CIDR = ''10.144.1.0/24'', VXLANMode = VXLANModeOf ''CrossSubnet'',
              IPIPMode = IPIPModeOf ''Never'', NATOutgoing = True, Disabled = False,
              DisableBGPExport = False, BlockSize = 27\<rparr>\<rparr>"



text \<open>
  Stand-ins for the two library functions of the annotation check, for evaluation only:
  lower-casing of ASCII letters, and a name check that reports an empty name and a name
  with a blank in it.
\<close>

definition ascii_ToLower :: "string \<Rightarrow> string" where
  "ascii_ToLower str =
     map (\<lambda>c. case map_of (zip ''ABCDEFGHIJKLMNOPQRSTUVWXYZ'' ''abcdefghijklmnopqrstuvwxyz'') c of
                 Some l \<Rightarrow> l
               | None \<Rightarrow> c) str"

definition sample_IsQualifiedName :: "string \<Rightarrow> string list" where
  "sample_IsQualifiedName str =
     (if str = [] then [''name part must be non-empty''] else [])
     @ (if CHR '' '' \<in> set str then [''name part must consist of alphanumeric characters''] else [])"

section \<open>Notions used to state the properties\<close>

text \<open>
  The pool as the specification describes it, written out field by field: each field of
  the object is the configuration field of the same name; a mode is the configured
  string when that is Always or CrossSubnet and Never for any other string; the
  annotations are the expanded map \<open>annotations\<close>.
\<close>

definition pool_from_configuration :: "ResourceData \<Rightarrow> (string \<times> string) list \<Rightarrow> IPPool" where
  "pool_from_configuration d annotations =
     \<lparr>Name = metadata_0_name d,
      ResourceVersion = metadata_0_resource_version d,
      Annotations = annotations,
      Spec = \<lparr>CIDR = spec_0_cidr d,
              VXLANMode = VXLANModeOf
                (if spec_0_vxlan_mode d = ''Always'' then ''Always''
                 else if spec_0_vxlan_mode d = ''CrossSubnet'' then ''CrossSubnet''
                 else ''Never''),
              IPIPMode = IPIPModeOf
                (if spec_0_ipip_mode d = ''Always'' then ''Always''
                 else if spec_0_ipip_mode d = ''CrossSubnet'' then ''CrossSubnet''
                 else ''Never''),
              NATOutgoing = spec_0_nat_outgoing d,
              Disabled = spec_0_disabled d,
              DisableBGPExport = spec_0_disable_bgp_export d,
              BlockSize = spec_0_block_size d\<rparr>\<rparr>"

text \<open>The events an operation has added to the trace of the world \<open>w\<close> it started in.\<close>

definition new_events :: "'r world \<Rightarrow> 'r world \<Rightarrow> event list" where
  "new_events w w' = drop (length (trace w)) (trace w')"

text \<open>
  Replaying a trace from a mutex that is held (\<open>h\<close>) or free: every remote call with
  the state of the mutex at the moment the call is made.
\<close>

fun held_at_calls :: "bool \<Rightarrow> event list \<Rightarrow> (call \<times> bool) list" where
  "held_at_calls h [] = []"
| "held_at_calls h (MutexLock # es) = held_at_calls True es"
| "held_at_calls h (MutexUnlock # es) = held_at_calls False es"
| "held_at_calls h (Remote c # es) = (c, h) # held_at_calls h es"

section \<open>The loops in closed form\<close>

lemma append_errors_eq:
  "append_errors key k es errors = es @ map (\<lambda>e. Errorf ''%s (%q) %s'' [key, k, e]) errors"
  by (induction errors arbitrary: es) simp_all

lemma validateAnnotations_range_eq:
  "validateAnnotations_range IsQ L key m es =
     es @ concat (map (\<lambda>(k, v). map (\<lambda>e. Errorf ''%s (%q) %s'' [key, k, e]) (IsQ (L k))) m)"
  by (induction m arbitrary: es) (auto simp: append_errors_eq Let_def)

section \<open>Each operation by the answer of the remote call\<close>

lemma getIPPool_eq:
  "IPPools_Get p (remote w) name = (res, s) \<Longrightarrow>
   getIPPool m p name w =
     (res, w\<lparr>locked := False,
              trace := trace w @ [MutexLock, Remote (CallGet name), MutexUnlock],
              remote := s\<rparr>)"
  by (cases res) (simp_all add: getIPPool_def remote_Get_def Meta_Lock_def Meta_Unlock_def)

lemma setIPPoolAttributes_eq:
  "setIPPoolAttributes d IPPool_zero =
     (case expandStringMap (metadata_0_annotations d) of
        Inl p \<Rightarrow> Inl p
      | Inr annotations \<Rightarrow> Inr (None, pool_from_configuration d annotations))"
  by (simp add: setIPPoolAttributes_def pool_from_configuration_def IPPool_zero_def
      IPPoolSpec_zero_def getIPIPMode_def getVXLANMode_def
      IPIPModeAlways_def IPIPModeCrossSubnet_def IPIPModeNever_def
      VXLANModeAlways_def VXLANModeCrossSubnet_def VXLANModeNever_def split: sum.splits)

lemma resourceIPPoolCreate_eq:
  assumes "GetCalicoConfiguration m = Inr p"
    and "expandStringMap (metadata_0_annotations d) = Inr annotations"
    and "IPPools_Create p (remote w) (pool_from_configuration d annotations) = (res, s)"
  shows "resourceIPPoolCreate m d w =
     Inr (case res of Inl err \<Rightarrow> FromErr err | Inr reply \<Rightarrow> [],
          case res of Inl err \<Rightarrow> d | Inr reply \<Rightarrow> d\<lparr>Id_str := metadata_0_name d\<rparr>,
          w\<lparr>trace := trace w @ [Remote (CallCreate (pool_from_configuration d annotations))],
            remote := s\<rparr>)"
  using assms
  by (cases res)
     (simp_all add: resourceIPPoolCreate_def setIPPoolAttributes_eq remote_Create_def SetId_def
        pool_from_configuration_def)

lemma resourceIPPoolUpdate_eq:
  assumes "GetCalicoConfiguration m = Inr p"
    and "expandStringMap (metadata_0_annotations d) = Inr annotations"
    and "IPPools_Update p (remote w) (pool_from_configuration d annotations) = (res, s)"
  shows "resourceIPPoolUpdate m d w =
     Inr (case res of Inl err \<Rightarrow> FromErr err | Inr reply \<Rightarrow> [],
          case res of Inl err \<Rightarrow> d | Inr reply \<Rightarrow> d\<lparr>Id_str := metadata_0_name d\<rparr>,
          w\<lparr>trace := trace w @ [Remote (CallUpdate (pool_from_configuration d annotations))],
            remote := s\<rparr>)"
  using assms
  by (cases res)
     (simp_all add: resourceIPPoolUpdate_def setIPPoolAttributes_eq remote_Update_def SetId_def
        pool_from_configuration_def)

lemma resourceIPPoolDelete_eq:
  assumes "GetCalicoConfiguration m = Inr p"
    and "IPPools_Delete p (remote w) (metadata_0_name d) = (res, s)"
  shows "resourceIPPoolDelete m d w =
     (case res of Some err \<Rightarrow> FromErr err | None \<Rightarrow> [],
      d,
      w\<lparr>trace := trace w @ [Remote (CallDelete (metadata_0_name d))], remote := s\<rparr>)"
  using assms
  by (cases res) (simp_all add: resourceIPPoolDelete_def remote_Delete_def)

lemma resourceIPPoolExists_eq:
  assumes "GetCalicoConfiguration m = Inr p"
    and "IPPools_Get p (remote w) (metadata_0_name d) = (res, s)"
  shows "resourceIPPoolExists m d w =
     (case res of Inl err \<Rightarrow> (False, Some err) | Inr r \<Rightarrow> (True, None),
      w\<lparr>locked := False,
        trace := trace w @ [MutexLock, Remote (CallGet (metadata_0_name d)), MutexUnlock],
        remote := s\<rparr>)"
  using assms
  by (cases res) (simp_all add: resourceIPPoolExists_def getIPPool_eq)

lemma resourceIPPoolExists_no_client:
  "GetCalicoConfiguration m = Inl err \<Longrightarrow> resourceIPPoolExists m d w = ((False, Some err), w)"
  by (simp add: resourceIPPoolExists_def)

section \<open>Expanding a map of strings\<close>

lemma update_fresh: "k \<notin> fst ` set al \<Longrightarrow> AList.update k v al = al @ [(k, v)]"
  by (induction al) auto

lemma expandStringMap_range_strings:
  "distinct (map fst result @ map fst ann) \<Longrightarrow>
   expandStringMap_range (map (\<lambda>(k, v). (k, VString v)) ann) result = Inr (result @ ann)"
proof (induction ann arbitrary: result)
  case Nil
  then show ?case by simp
next
  case (Cons a ann)
  obtain k v where a: "a = (k, v)" by (cases a)
  from Cons.prems a have fresh: "k \<notin> fst ` set result" by auto
  from Cons.prems a have "distinct (map fst (result @ [(k, v)]) @ map fst ann)" by auto
  from Cons.IH [OF this] show ?case
    by (simp add: a update_fresh [OF fresh])
qed

lemma expandStringMap_strings:
  "distinct (map fst ann) \<Longrightarrow> expandStringMap (map (\<lambda>(k, v). (k, VString v)) ann) = Inr ann"
  using expandStringMap_range_strings [of "[]" ann] by (simp add: expandStringMap_def)

lemma expandStringMap_range_panics:
  "(k, v) \<in> set m \<Longrightarrow> (\<forall>str. v \<noteq> VString str) \<Longrightarrow> expandStringMap_range m result = Inl TypeAssertionPanic"
proof (induction m arbitrary: result)
  case Nil
  then show ?case by simp
next
  case (Cons a m)
  then show ?case by (cases a; cases "snd a") auto
qed

section \<open>Traces of the read path\<close>

lemma getIPPool_trace:
  "trace (snd (getIPPool m p name w)) = trace w @ [MutexLock, Remote (CallGet name), MutexUnlock]"
  by (cases "IPPools_Get p (remote w) name") (simp add: getIPPool_eq)

lemma getIPPool_locked: "locked (snd (getIPPool m p name w)) = False"
  by (cases "IPPools_Get p (remote w) name") (simp add: getIPPool_eq)

lemma new_events_append [simp]:
  "trace w' = trace w @ evs \<Longrightarrow> new_events w w' = evs"
  by (simp add: new_events_def)

lemma resourceIPPoolExists_trace:
  "new_events w (snd (resourceIPPoolExists m d w)) \<in>
     {[], [MutexLock, Remote (CallGet (metadata_0_name d)), MutexUnlock]}"
proof (cases "GetCalicoConfiguration m")
  case (Inl err)
  then show ?thesis by (simp add: resourceIPPoolExists_no_client new_events_def)
next
  case (Inr p)
  obtain res s where "IPPools_Get p (remote w) (metadata_0_name d) = (res, s)"
    by (cases "IPPools_Get p (remote w) (metadata_0_name d)")
  from resourceIPPoolExists_eq [OF Inr this] show ?thesis by simp
qed


lemma resourceIPPoolRead_fetch_fails:
  assumes "GetCalicoConfiguration m = Inr p"
    and "IPPools_Get p (remote w) (metadata_0_name d) = (Inl err, s)"
  shows "resourceIPPoolRead m d w =
     (FromErr err, d,
      w\<lparr>locked := False,
        trace := trace w @ [MutexLock, Remote (CallGet (metadata_0_name d)), MutexUnlock],
        remote := s\<rparr>)"
  by (simp add: resourceIPPoolRead_def resourceIPPoolExists_eq [OF assms])

lemma resourceIPPoolRead_no_client:
  "GetCalicoConfiguration m = Inl err \<Longrightarrow> resourceIPPoolRead m d w = (FromErr err, d, w)"
  by (simp add: resourceIPPoolRead_def resourceIPPoolExists_no_client)

lemma resourceIPPoolRead_second_fetch:
  assumes "GetCalicoConfiguration m = Inr p"
    and "IPPools_Get p (remote w) (metadata_0_name d) = (Inr r, s)"
  shows "resourceIPPoolRead m d w =
     (case getIPPool m p (metadata_0_name d)
             (w\<lparr>locked := False,
                trace := trace w @ [MutexLock, Remote (CallGet (metadata_0_name d)), MutexUnlock],
                remote := s\<rparr>) of
        (Inl err, w2) \<Rightarrow> (FromErr err, d, w2)
      | (Inr r', w2) \<Rightarrow>
          (case setResourceAttributes d r' of
             (Some err, d') \<Rightarrow> (FromErr err, d', w2)
           | (None, d') \<Rightarrow> ([], d', w2)))"
  by (simp add: resourceIPPoolRead_def resourceIPPoolExists_eq [OF assms] assms(1))

lemma resourceIPPoolRead_trace:
  "new_events w (snd (snd (resourceIPPoolRead m d w))) \<in>
     {[],
      [MutexLock, Remote (CallGet (metadata_0_name d)), MutexUnlock],
      [MutexLock, Remote (CallGet (metadata_0_name d)), MutexUnlock,
       MutexLock, Remote (CallGet (metadata_0_name d)), MutexUnlock]}"
proof (cases "GetCalicoConfiguration m")
  case (Inl err)
  then show ?thesis by (simp add: resourceIPPoolRead_no_client new_events_def)
next
  case (Inr p)
  obtain res s where get1: "IPPools_Get p (remote w) (metadata_0_name d) = (res, s)"
    by (cases "IPPools_Get p (remote w) (metadata_0_name d)")
  show ?thesis
  proof (cases res)
    case (Inl err)
    with get1 have "IPPools_Get p (remote w) (metadata_0_name d) = (Inl err, s)" by simp
    from resourceIPPoolRead_fetch_fails [OF Inr this] show ?thesis by simp
  next
    case (Inr r)
    with get1 have g: "IPPools_Get p (remote w) (metadata_0_name d) = (Inr r, s)" by simp
    define w1 where "w1 = w\<lparr>locked := False,
                trace := trace w @ [MutexLock, Remote (CallGet (metadata_0_name d)), MutexUnlock],
                remote := s\<rparr>"
    obtain res2 s2 where get2: "IPPools_Get p (remote w1) (metadata_0_name d) = (res2, s2)"
      by (cases "IPPools_Get p (remote w1) (metadata_0_name d)")
    have "trace (snd (snd (resourceIPPoolRead m d w))) =
            trace w @ [MutexLock, Remote (CallGet (metadata_0_name d)), MutexUnlock,
                       MutexLock, Remote (CallGet (metadata_0_name d)), MutexUnlock]"
      unfolding resourceIPPoolRead_second_fetch [OF \<open>GetCalicoConfiguration m = Inr p\<close> g]
        w1_def [symmetric] getIPPool_eq [OF get2]
      by (cases res2) (simp_all add: w1_def split: prod.splits option.splits)
    then show ?thesis by simp
  qed
qed

section \<open>The exits before the remote call\<close>

lemma resourceIPPoolCreate_no_client:
  "GetCalicoConfiguration m = Inl err \<Longrightarrow> resourceIPPoolCreate m d w = Inr (FromErr err, d, w)"
  by (simp add: resourceIPPoolCreate_def)

lemma resourceIPPoolUpdate_no_client:
  "GetCalicoConfiguration m = Inl err \<Longrightarrow> resourceIPPoolUpdate m d w = Inr (FromErr err, d, w)"
  by (simp add: resourceIPPoolUpdate_def)

lemma resourceIPPoolDelete_no_client:
  "GetCalicoConfiguration m = Inl err \<Longrightarrow> resourceIPPoolDelete m d w = (FromErr err, d, w)"
  by (simp add: resourceIPPoolDelete_def)

lemma resourceIPPoolCreate_panics:
  assumes "GetCalicoConfiguration m = Inr p"
    and "(k, v) \<in> set (metadata_0_annotations d)" and "\<forall>str. v \<noteq> VString str"
  shows "resourceIPPoolCreate m d w = Inl TypeAssertionPanic"
  using assms expandStringMap_range_panics [of k v "metadata_0_annotations d" "[]"]
  by (simp add: resourceIPPoolCreate_def setIPPoolAttributes_eq expandStringMap_def)

lemma resourceIPPoolUpdate_panics:
  assumes "GetCalicoConfiguration m = Inr p"
    and "(k, v) \<in> set (metadata_0_annotations d)" and "\<forall>str. v \<noteq> VString str"
  shows "resourceIPPoolUpdate m d w = Inl TypeAssertionPanic"
  using assms expandStringMap_range_panics [of k v "metadata_0_annotations d" "[]"]
  by (simp add: resourceIPPoolUpdate_def setIPPoolAttributes_eq expandStringMap_def)

text \<open>A read that returns no diagnostics has refreshed the resource data from a fetched pool.\<close>

lemma resourceIPPoolRead_success_is_refresh:
  assumes "resourceIPPoolRead m d w = ([], d', w')"
  shows "\<exists>r. setResourceAttributes d r = (None, d')"
proof (cases "GetCalicoConfiguration m")
  case (Inl err)
  with assms show ?thesis by (simp add: resourceIPPoolRead_no_client FromErr_def)
next
  case (Inr p)
  obtain res s where get1: "IPPools_Get p (remote w) (metadata_0_name d) = (res, s)"
    by (cases "IPPools_Get p (remote w) (metadata_0_name d)")
  show ?thesis
  proof (cases res)
    case (Inl err)
    with get1 have "IPPools_Get p (remote w) (metadata_0_name d) = (Inl err, s)" by simp
    from resourceIPPoolRead_fetch_fails [OF Inr this] assms show ?thesis
      by (simp add: FromErr_def)
  next
    case (Inr r)
    with get1 have g: "IPPools_Get p (remote w) (metadata_0_name d) = (Inr r, s)" by simp
    from assms show ?thesis
      unfolding resourceIPPoolRead_second_fetch [OF \<open>GetCalicoConfiguration m = Inr p\<close> g]
      by (auto simp: FromErr_def split: prod.splits sum.splits option.splits)
  qed
qed

section \<open>Properties of the mode translation\<close>

lemma IPIPMode_constants_distinct:
  "IPIPModeAlways \<noteq> IPIPModeCrossSubnet \<and> IPIPModeAlways \<noteq> IPIPModeNever
   \<and> IPIPModeCrossSubnet \<noteq> IPIPModeNever"
  by (simp add: IPIPModeAlways_def IPIPModeCrossSubnet_def IPIPModeNever_def)

lemma VXLANMode_constants_distinct:
  "VXLANModeAlways \<noteq> VXLANModeCrossSubnet \<and> VXLANModeAlways \<noteq> VXLANModeNever
   \<and> VXLANModeCrossSubnet \<noteq> VXLANModeNever"
  by (simp add: VXLANModeAlways_def VXLANModeCrossSubnet_def VXLANModeNever_def)

text \<open>
  Claim C3. Both translation functions are total (they return a mode for every string,
  there is no error result), send \<open>''Always''\<close> to Always and \<open>''CrossSubnet''\<close> to
  CrossSubnet, and send every other string, the empty string included, to Never.
\<close>

theorem mode_translation_total:
  "getIPIPMode ''Always'' = IPIPModeAlways
   \<and> getIPIPMode ''CrossSubnet'' = IPIPModeCrossSubnet
   \<and> getVXLANMode ''Always'' = VXLANModeAlways
   \<and> getVXLANMode ''CrossSubnet'' = VXLANModeCrossSubnet
   \<and> getIPIPMode [] = IPIPModeNever
   \<and> getVXLANMode [] = VXLANModeNever
   \<and> (\<forall>mode. mode \<noteq> ''Always'' \<and> mode \<noteq> ''CrossSubnet'' \<longrightarrow>
         getIPIPMode mode = IPIPModeNever \<and> getVXLANMode mode = VXLANModeNever)"
  by (simp add: getIPIPMode_def getVXLANMode_def)

theorem mode_translation_total_witness:
  "getIPIPMode ''Sometimes'' = IPIPModeNever \<and> getVXLANMode ''always'' = VXLANModeNever
   \<and> getIPIPMode ''Never'' = IPIPModeNever"
  using mode_translation_total by simp

section \<open>Existence check and read\<close>

text \<open>
  Claim C2. \<open>resourceIPPoolExists\<close> returns \<open>(true, nil)\<close> exactly when the client handle is
  obtained and the fetch of the named pool succeeds; in every other case it returns
  \<open>false\<close> together with an error, never \<open>(false, nil)\<close>. Whatever error the fetch
  reports, not-found or any other, comes back unchanged in the same shape.
\<close>

theorem exists_true_iff_fetch_succeeds:
  "(fst (resourceIPPoolExists m d w) = (True, None) \<longleftrightarrow>
      (\<exists>p r s. GetCalicoConfiguration m = Inr p
         \<and> IPPools_Get p (remote w) (metadata_0_name d) = (Inr r, s)))
   \<and> (fst (resourceIPPoolExists m d w) \<noteq> (True, None) \<longrightarrow>
        (\<exists>e. fst (resourceIPPoolExists m d w) = (False, Some e)))
   \<and> fst (resourceIPPoolExists m d w) \<noteq> (False, None)
   \<and> (\<forall>p e s. GetCalicoConfiguration m = Inr p
         \<and> IPPools_Get p (remote w) (metadata_0_name d) = (Inl e, s) \<longrightarrow>
         fst (resourceIPPoolExists m d w) = (False, Some e))"
proof (cases "GetCalicoConfiguration m")
  case (Inl err)
  then show ?thesis by (simp add: resourceIPPoolExists_no_client)
next
  case (Inr p)
  obtain res s where g: "IPPools_Get p (remote w) (metadata_0_name d) = (res, s)"
    by (cases "IPPools_Get p (remote w) (metadata_0_name d)")
  show ?thesis
    using Inr g by (cases res) (simp_all add: resourceIPPoolExists_eq [OF Inr g])
qed

theorem exists_true_iff_fetch_succeeds_witness:
  "fst (resourceIPPoolExists fake_meta example_data (world0 [(''test'', example_pool)])) = (True, None)
   \<and> fst (resourceIPPoolExists fake_meta example_data (world0 [])) = (False, Some (NotFound ''test''))
   \<and> fst (resourceIPPoolExists broken_meta example_data (world0 []))
       = (False, Some (Unavailable ''no kubeconfig''))"
proof -
  have c: "GetCalicoConfiguration fake_meta = Inr fake_clientset"
    by (simp add: fake_meta_def)
  have present: "IPPools_Get fake_clientset (remote (world0 [(''test'', example_pool)]))
                   (metadata_0_name example_data) = (Inr example_pool, [(''test'', example_pool)])"
    by (simp add: fake_clientset_def fake_Get_def world0_def example_data_def)
  have absent: "IPPools_Get fake_clientset (remote (world0 [])) (metadata_0_name example_data)
                  = (Inl (NotFound ''test''), [])"
    by (simp add: fake_clientset_def fake_Get_def world0_def example_data_def)
  have 1: "fst (resourceIPPoolExists fake_meta example_data (world0 [(''test'', example_pool)])) = (True, None)"
    using exists_true_iff_fetch_succeeds [of fake_meta example_data "world0 [(''test'', example_pool)]"]
      c present by blast
  have 2: "fst (resourceIPPoolExists fake_meta example_data (world0 [])) = (False, Some (NotFound ''test''))"
    using exists_true_iff_fetch_succeeds [of fake_meta example_data "world0 []"] c absent by blast
  have "fst (resourceIPPoolExists broken_meta example_data (world0 [])) \<noteq> (True, None)"
    using exists_true_iff_fetch_succeeds [of broken_meta example_data "world0 []"]
    by (simp add: broken_meta_def)
  then have 3: "fst (resourceIPPoolExists broken_meta example_data (world0 []))
       = (False, Some (Unavailable ''no kubeconfig''))"
    by (simp add: resourceIPPoolExists_no_client broken_meta_def)
  from 1 2 3 show ?thesis by simp
qed

text \<open>
  Claim C1, on the code. The pool \<open>test\<close> is not on the server, the local identifier is
  \<open>test\<close>. The fetch inside the existence check answers not-found, the check returns
  \<open>(false, err)\<close>, and \<open>resourceIPPoolRead\<close> returns that error as a diagnostic with the
  identifier still \<open>test\<close>: the branch that clears the identifier is not reached.
\<close>

theorem read_of_missing_pool_reports_error:
  "resourceIPPoolRead fake_meta (example_data\<lparr>Id_str := ''test''\<rparr>) (world0 []) =
     (FromErr (NotFound ''test''),
      example_data\<lparr>Id_str := ''test''\<rparr>,
      \<lparr>locked = False, trace = [MutexLock, Remote (CallGet ''test''), MutexUnlock], remote = []\<rparr>)"
proof -
  have c: "GetCalicoConfiguration fake_meta = Inr fake_clientset"
    by (simp add: fake_meta_def)
  have absent: "IPPools_Get fake_clientset (remote (world0 []))
                  (metadata_0_name (example_data\<lparr>Id_str := ''test''\<rparr>)) = (Inl (NotFound ''test''), [])"
    by (simp add: fake_clientset_def fake_Get_def world0_def example_data_def)
  show ?thesis
    by (simp add: resourceIPPoolRead_fetch_fails [OF c absent]) (simp add: world0_def example_data_def)
qed


section \<open>Annotation keys\<close>

text \<open>
  Claim C4. On a map, \<open>validateAnnotations\<close> returns no warnings and the errors of all
  keys together: for each entry, in iteration order, one error per violation that the
  qualified-name check reports for the lower-cased key. So every offending key is
  reported with each of its violations, the number of errors is the number of
  violations, and there is no error exactly when every lower-cased key is a qualified
  name.
\<close>

theorem validateAnnotations_reports_every_key:
  "\<exists>es. validateAnnotations IsQ L (VMap m) key = Inr ([], es)
     \<and> es = concat (map (\<lambda>(k, v). map (\<lambda>e. Errorf ''%s (%q) %s'' [key, k, e]) (IsQ (L k))) m)
     \<and> (\<forall>(k, v) \<in> set m. \<forall>e \<in> set (IsQ (L k)). Errorf ''%s (%q) %s'' [key, k, e] \<in> set es)
     \<and> length es = sum_list (map (\<lambda>(k, v). length (IsQ (L k))) m)
     \<and> (es = [] \<longleftrightarrow> (\<forall>(k, v) \<in> set m. IsQ (L k) = []))"
proof -
  define es where
    "es = concat (map (\<lambda>(k, v). map (\<lambda>e. Errorf ''%s (%q) %s'' [key, k, e]) (IsQ (L k))) m)"
  have run: "validateAnnotations IsQ L (VMap m) key = Inr ([], es)"
    by (simp add: validateAnnotations_def validateAnnotations_range_eq es_def)
  have every: "\<forall>(k, v) \<in> set m. \<forall>e \<in> set (IsQ (L k)). Errorf ''%s (%q) %s'' [key, k, e] \<in> set es"
    unfolding es_def by force
  have count: "length es = sum_list (map (\<lambda>(k, v). length (IsQ (L k))) m)"
    unfolding es_def by (induction m) auto
  have none: "es = [] \<longleftrightarrow> (\<forall>(k, v) \<in> set m. IsQ (L k) = [])"
    unfolding es_def by (induction m) auto
  from run every count none es_def show ?thesis by blast
qed

theorem validateAnnotations_reports_every_key_witness:
  "validateAnnotations sample_IsQualifiedName ascii_ToLower
     (VMap [(''Owner'', VString ''net''), ([], VString ''x''), (''a b'', VString ''y'')])
     ''metadata.0.annotations''
   = Inr ([],
       [Errorf ''%s (%q) %s'' [''metadata.0.annotations'', [], ''name part must be non-empty''],
        Errorf ''%s (%q) %s'' [''metadata.0.annotations'', ''a b'',
           ''name part must consist of alphanumeric characters'']])
   \<and> validateAnnotations sample_IsQualifiedName ascii_ToLower
       (VMap [(''Owner'', VString ''net'')]) ''metadata.0.annotations'' = Inr ([], [])"
proof -
  obtain es where
    "validateAnnotations sample_IsQualifiedName ascii_ToLower
       (VMap [(''Owner'', VString ''net''), ([], VString ''x''), (''a b'', VString ''y'')])
       ''metadata.0.annotations'' = Inr ([], es)"
    and "es = concat (map (\<lambda>(k, v). map (\<lambda>e. Errorf ''%s (%q) %s'' [''metadata.0.annotations'', k, e])
                 (sample_IsQualifiedName (ascii_ToLower k)))
               [(''Owner'', VString ''net''), ([], VString ''x''), (''a b'', VString ''y'')])"
    using validateAnnotations_reports_every_key
      [of sample_IsQualifiedName ascii_ToLower
        "[(''Owner'', VString ''net''), ([], VString ''x''), (''a b'', VString ''y'')]"
        "''metadata.0.annotations''"]
    by blast
  then have 1: "validateAnnotations sample_IsQualifiedName ascii_ToLower
     (VMap [(''Owner'', VString ''net''), ([], VString ''x''), (''a b'', VString ''y'')])
     ''metadata.0.annotations''
   = Inr ([],
       [Errorf ''%s (%q) %s'' [''metadata.0.annotations'', [], ''name part must be non-empty''],
        Errorf ''%s (%q) %s'' [''metadata.0.annotations'', ''a b'',
           ''name part must consist of alphanumeric characters'']])"
    by (simp add: sample_IsQualifiedName_def ascii_ToLower_def)
  obtain es' where
    "validateAnnotations sample_IsQualifiedName ascii_ToLower
       (VMap [(''Owner'', VString ''net'')]) ''metadata.0.annotations'' = Inr ([], es')"
    and "es' = [] \<longleftrightarrow> (\<forall>(k, v) \<in> set [(''Owner'', VString ''net'')].
                 sample_IsQualifiedName (ascii_ToLower k) = [])"
    using validateAnnotations_reports_every_key
      [of sample_IsQualifiedName ascii_ToLower "[(''Owner'', VString ''net'')]"
        "''metadata.0.annotations''"]
    by blast
  then have 2: "validateAnnotations sample_IsQualifiedName ascii_ToLower
       (VMap [(''Owner'', VString ''net'')]) ''metadata.0.annotations'' = Inr ([], [])"
    by (simp add: sample_IsQualifiedName_def ascii_ToLower_def)
  from 1 2 show ?thesis by simp
qed

section \<open>The concrete instances evaluated\<close>

lemma example_pool_built:
  "pool_from_configuration example_data [(''owner'', ''net'')] = example_pool"
  by (simp add: pool_from_configuration_def example_data_def example_pool_def)

lemma example_annotations:
  "metadata_0_annotations example_data = map (\<lambda>(k, v). (k, VString v)) [(''owner'', ''net'')]"
  by (simp add: example_data_def)

lemma fake_meta_client: "GetCalicoConfiguration fake_meta = Inr fake_clientset"
  by (simp add: fake_meta_def)

section \<open>Create, update and delete\<close>

text \<open>
  Claim C5. With the client handle obtained and an annotations map of strings, let
  \<open>pool\<close> be the object written out in the fourth assumption: name, resource_version,
  annotations, cidr, block_size and the three flags are the configuration fields, and
  each mode is the configured string when that is Always or CrossSubnet and Never
  otherwise. \<open>resourceIPPoolCreate\<close> submits exactly this pool in one remote Create call.
  When the call succeeds the identifier is set to the configured name, which is the
  pool's name, and nothing is reported; when it fails the error is reported and the
  resource data, the identifier included, is as before. In any invocation that reports
  a diagnostic the resource data is as before.
\<close>

theorem create_submits_pool_built_from_configuration:
  assumes "GetCalicoConfiguration m = Inr p"
    and "metadata_0_annotations d = map (\<lambda>(k, v). (k, VString v)) annotations"
    and "distinct (map fst annotations)"
    and "pool =
           \<lparr>Name = metadata_0_name d,
            ResourceVersion = metadata_0_resource_version d,
            Annotations = annotations,
            Spec = \<lparr>CIDR = spec_0_cidr d,
                    VXLANMode = VXLANModeOf
                      (if spec_0_vxlan_mode d = ''Always'' then ''Always''
                       else if spec_0_vxlan_mode d = ''CrossSubnet'' then ''CrossSubnet''
                       else ''Never''),
                    IPIPMode = IPIPModeOf
                      (if spec_0_ipip_mode d = ''Always'' then ''Always''
                       else if spec_0_ipip_mode d = ''CrossSubnet'' then ''CrossSubnet''
                       else ''Never''),
                    NATOutgoing = spec_0_nat_outgoing d,
                    Disabled = spec_0_disabled d,
                    DisableBGPExport = spec_0_disable_bgp_export d,
                    BlockSize = spec_0_block_size d\<rparr>\<rparr>"
  shows "(\<forall>reply s.
            IPPools_Create p (remote w) pool = (Inr reply, s) \<longrightarrow>
            resourceIPPoolCreate m d w =
              Inr ([], d\<lparr>Id_str := metadata_0_name d\<rparr>,
                   w\<lparr>trace := trace w @ [Remote (CallCreate pool)], remote := s\<rparr>))
       \<and> (\<forall>err s.
            IPPools_Create p (remote w) pool = (Inl err, s) \<longrightarrow>
            resourceIPPoolCreate m d w =
              Inr (FromErr err, d,
                   w\<lparr>trace := trace w @ [Remote (CallCreate pool)], remote := s\<rparr>))
       \<and> (\<forall>dg d' w'. resourceIPPoolCreate m d w = Inr (dg, d', w') \<and> dg \<noteq> [] \<longrightarrow> d' = d)"
proof -
  have ann: "expandStringMap (metadata_0_annotations d) = Inr annotations"
    using assms(2,3) by (simp add: expandStringMap_strings)
  have pool: "pool_from_configuration d annotations = pool"
    using assms(4) by (simp add: pool_from_configuration_def)
  have calls: "(\<forall>reply s.
            IPPools_Create p (remote w) pool = (Inr reply, s) \<longrightarrow>
            resourceIPPoolCreate m d w =
              Inr ([], d\<lparr>Id_str := metadata_0_name d\<rparr>,
                   w\<lparr>trace := trace w @ [Remote (CallCreate pool)], remote := s\<rparr>))
       \<and> (\<forall>err s.
            IPPools_Create p (remote w) pool = (Inl err, s) \<longrightarrow>
            resourceIPPoolCreate m d w =
              Inr (FromErr err, d,
                   w\<lparr>trace := trace w @ [Remote (CallCreate pool)], remote := s\<rparr>))"
    by (auto simp: resourceIPPoolCreate_eq [OF assms(1) ann] pool)
  have frame: "\<forall>dg d' w'. resourceIPPoolCreate m d w = Inr (dg, d', w') \<and> dg \<noteq> [] \<longrightarrow> d' = d"
    by (auto simp: resourceIPPoolCreate_def split: sum.splits option.splits prod.splits)
  from calls frame show ?thesis by blast
qed

theorem create_submits_pool_built_from_configuration_witness:
  "resourceIPPoolCreate fake_meta example_data (world0 []) =
     Inr ([], example_data\<lparr>Id_str := ''test''\<rparr>,
          \<lparr>locked = False, trace = [Remote (CallCreate example_pool)],
           remote = [(''test'', example_pool\<lparr>ResourceVersion := ''1''\<rparr>)]\<rparr>)
   \<and> resourceIPPoolCreate fake_meta example_data (world0 [(''test'', example_pool)]) =
     Inr (FromErr (AlreadyExists ''test''), example_data,
          \<lparr>locked = False, trace = [Remote (CallCreate example_pool)],
           remote = [(''test'', example_pool)]\<rparr>)
   \<and> resourceIPPoolCreate fake_meta vxlan_data (world0 []) =
     Inr ([], vxlan_data\<lparr>Id_str := ''test''\<rparr>,
          \<lparr>locked = False, trace = [Remote (CallCreate vxlan_pool)],
           remote = [(''test'', vxlan_pool\<lparr>ResourceVersion := ''1''\<rparr>)]\<rparr>)"
proof -
  have ok: "IPPools_Create fake_clientset (remote (world0 [])) example_pool
            = (Inr (example_pool\<lparr>ResourceVersion := ''1''\<rparr>),
               [(''test'', example_pool\<lparr>ResourceVersion := ''1''\<rparr>)])"
    by (simp add: fake_clientset_def fake_Create_def world0_def example_pool_def Let_def)
  have dup: "IPPools_Create fake_clientset (remote (world0 [(''test'', example_pool)])) example_pool
            = (Inl (AlreadyExists ''test''), [(''test'', example_pool)])"
    by (simp add: fake_clientset_def fake_Create_def world0_def example_pool_def Let_def)
  have vx: "IPPools_Create fake_clientset (remote (world0 [])) vxlan_pool
            = (Inr (vxlan_pool\<lparr>ResourceVersion := ''1''\<rparr>),
               [(''test'', vxlan_pool\<lparr>ResourceVersion := ''1''\<rparr>)])"
    by (simp add: fake_clientset_def fake_Create_def world0_def vxlan_pool_def Let_def)
  have e_pool: "example_pool =
           \<lparr>Name = metadata_0_name example_data,
            ResourceVersion = metadata_0_resource_version example_data,
            Annotations = [(''owner'', ''net'')],
            Spec = \<lparr>CIDR = spec_0_cidr example_data,
                    VXLANMode = VXLANModeOf
                      (if spec_0_vxlan_mode example_data = ''Always'' then ''Always''
                       else if spec_0_vxlan_mode example_data = ''CrossSubnet'' then ''CrossSubnet''
                       else ''Never''),
                    IPIPMode = IPIPModeOf
                      (if spec_0_ipip_mode example_data = ''Always'' then ''Always''
                       else if spec_0_ipip_mode example_data = ''CrossSubnet'' then ''CrossSubnet''
                       else ''Never''),
                    NATOutgoing = spec_0_nat_outgoing example_data,
                    Disabled = spec_0_disabled example_data,
                    DisableBGPExport = spec_0_disable_bgp_export example_data,
                    BlockSize = spec_0_block_size example_data\<rparr>\<rparr>"
    by (simp add: example_data_def example_pool_def)
  have v_pool: "vxlan_pool =
           \<lparr>Name = metadata_0_name vxlan_data,
            ResourceVersion = metadata_0_resource_version vxlan_data,
            Annotations = [(''owner'', ''net'')],
            Spec = \<lparr>CIDR = spec_0_cidr vxlan_data,
                    VXLANMode = VXLANModeOf
                      (if spec_0_vxlan_mode vxlan_data = ''Always'' then ''Always''
                       else if spec_0_vxlan_mode vxlan_data = ''CrossSubnet'' then ''CrossSubnet''
                       else ''Never''),
                    IPIPMode = IPIPModeOf
                      (if spec_0_ipip_mode vxlan_data = ''Always'' then ''Always''
                       else if spec_0_ipip_mode vxlan_data = ''CrossSubnet'' then ''CrossSubnet''
                       else ''Never''),
                    NATOutgoing = spec_0_nat_outgoing vxlan_data,
                    Disabled = spec_0_disabled vxlan_data,
                    DisableBGPExport = spec_0_disable_bgp_export vxlan_data,
                    BlockSize = spec_0_block_size vxlan_data\<rparr>\<rparr>"
    by (simp add: vxlan_data_def vxlan_pool_def)
  have v_ann: "metadata_0_annotations vxlan_data = map (\<lambda>(k, v). (k, VString v)) [(''owner'', ''net'')]"
    by (simp add: vxlan_data_def)
  have dist: "distinct (map fst [(''owner'', ''net'')])"
    by simp
  have e_name: "metadata_0_name example_data = ''test''" and v_name: "metadata_0_name vxlan_data = ''test''"
    by (simp_all add: example_data_def vxlan_data_def)
  note e = create_submits_pool_built_from_configuration [OF fake_meta_client example_annotations dist e_pool]
  note v = create_submits_pool_built_from_configuration [OF fake_meta_client v_ann dist v_pool]
  from e [of "world0 []"] ok
  have 1: "resourceIPPoolCreate fake_meta example_data (world0 []) =
     Inr ([], example_data\<lparr>Id_str := ''test''\<rparr>,
          \<lparr>locked = False, trace = [Remote (CallCreate example_pool)],
           remote = [(''test'', example_pool\<lparr>ResourceVersion := ''1''\<rparr>)]\<rparr>)"
    by (simp add: e_name world0_def)
  from e [of "world0 [(''test'', example_pool)]"] dup
  have 2: "resourceIPPoolCreate fake_meta example_data (world0 [(''test'', example_pool)]) =
     Inr (FromErr (AlreadyExists ''test''), example_data,
          \<lparr>locked = False, trace = [Remote (CallCreate example_pool)],
           remote = [(''test'', example_pool)]\<rparr>)"
    by (simp add: world0_def)
  from v [of "world0 []"] vx
  have 3: "resourceIPPoolCreate fake_meta vxlan_data (world0 []) =
     Inr ([], vxlan_data\<lparr>Id_str := ''test''\<rparr>,
          \<lparr>locked = False, trace = [Remote (CallCreate vxlan_pool)],
           remote = [(''test'', vxlan_pool\<lparr>ResourceVersion := ''1''\<rparr>)]\<rparr>)"
    by (simp add: v_name world0_def)
  from 1 2 3 show ?thesis by simp
qed

text \<open>
  Claim C7. With the client handle obtained and an annotations map of strings, let
  \<open>pool\<close> be the object written out in the fourth assumption: every field comes from
  the configuration, the version token is the locally stored resource_version, and each
  mode is the configured string when that is Always or CrossSubnet and Never otherwise.
  \<open>resourceIPPoolUpdate\<close> submits exactly this whole pool in one remote Update call. On
  success the identifier is set to the configured name, which is the pool's name; on
  failure the resource data is left as it was. In any invocation that reports a
  diagnostic the resource data is as before.
\<close>

theorem update_submits_full_replacement:
  assumes "GetCalicoConfiguration m = Inr p"
    and "metadata_0_annotations d = map (\<lambda>(k, v). (k, VString v)) annotations"
    and "distinct (map fst annotations)"
    and "pool =
           \<lparr>Name = metadata_0_name d,
            ResourceVersion = metadata_0_resource_version d,
            Annotations = annotations,
            Spec = \<lparr>CIDR = spec_0_cidr d,
                    VXLANMode = VXLANModeOf
                      (if spec_0_vxlan_mode d = ''Always'' then ''Always''
                       else if spec_0_vxlan_mode d = ''CrossSubnet'' then ''CrossSubnet''
                       else ''Never''),
                    IPIPMode = IPIPModeOf
                      (if spec_0_ipip_mode d = ''Always'' then ''Always''
                       else if spec_0_ipip_mode d = ''CrossSubnet'' then ''CrossSubnet''
                       else ''Never''),
                    NATOutgoing = spec_0_nat_outgoing d,
                    Disabled = spec_0_disabled d,
                    DisableBGPExport = spec_0_disable_bgp_export d,
                    BlockSize = spec_0_block_size d\<rparr>\<rparr>"
  shows "(\<forall>reply s.
            IPPools_Update p (remote w) pool = (Inr reply, s) \<longrightarrow>
            resourceIPPoolUpdate m d w =
              Inr ([], d\<lparr>Id_str := metadata_0_name d\<rparr>,
                   w\<lparr>trace := trace w @ [Remote (CallUpdate pool)], remote := s\<rparr>))
       \<and> (\<forall>err s.
            IPPools_Update p (remote w) pool = (Inl err, s) \<longrightarrow>
            resourceIPPoolUpdate m d w =
              Inr (FromErr err, d,
                   w\<lparr>trace := trace w @ [Remote (CallUpdate pool)], remote := s\<rparr>))
       \<and> (\<forall>dg d' w'. resourceIPPoolUpdate m d w = Inr (dg, d', w') \<and> dg \<noteq> [] \<longrightarrow> d' = d)"
proof -
  have ann: "expandStringMap (metadata_0_annotations d) = Inr annotations"
    using assms(2,3) by (simp add: expandStringMap_strings)
  have pool: "pool_from_configuration d annotations = pool"
    using assms(4) by (simp add: pool_from_configuration_def)
  have calls: "(\<forall>reply s.
            IPPools_Update p (remote w) pool = (Inr reply, s) \<longrightarrow>
            resourceIPPoolUpdate m d w =
              Inr ([], d\<lparr>Id_str := metadata_0_name d\<rparr>,
                   w\<lparr>trace := trace w @ [Remote (CallUpdate pool)], remote := s\<rparr>))
       \<and> (\<forall>err s.
            IPPools_Update p (remote w) pool = (Inl err, s) \<longrightarrow>
            resourceIPPoolUpdate m d w =
              Inr (FromErr err, d,
                   w\<lparr>trace := trace w @ [Remote (CallUpdate pool)], remote := s\<rparr>))"
    by (auto simp: resourceIPPoolUpdate_eq [OF assms(1) ann] pool)
  have frame: "\<forall>dg d' w'. resourceIPPoolUpdate m d w = Inr (dg, d', w') \<and> dg \<noteq> [] \<longrightarrow> d' = d"
    by (auto simp: resourceIPPoolUpdate_def split: sum.splits option.splits prod.splits)
  from calls frame show ?thesis by blast
qed

theorem update_submits_full_replacement_witness:
  "resourceIPPoolUpdate fake_meta (example_data\<lparr>Id_str := ''old'', metadata_0_resource_version := ''7''\<rparr>)
     (world0 [(''test'', example_pool\<lparr>ResourceVersion := ''7''\<rparr>)]) =
     Inr ([], example_data\<lparr>Id_str := ''test'', metadata_0_resource_version := ''7''\<rparr>,
          \<lparr>locked = False, trace = [Remote (CallUpdate (example_pool\<lparr>ResourceVersion := ''7''\<rparr>))],
           remote = [(''test'', example_pool\<lparr>ResourceVersion := ''71''\<rparr>)]\<rparr>)
   \<and> resourceIPPoolUpdate fake_meta (example_data\<lparr>Id_str := ''old'', metadata_0_resource_version := ''7''\<rparr>)
     (world0 [(''test'', example_pool\<lparr>ResourceVersion := ''8''\<rparr>)]) =
     Inr (FromErr (Conflict ''test''),
          example_data\<lparr>Id_str := ''old'', metadata_0_resource_version := ''7''\<rparr>,
          \<lparr>locked = False, trace = [Remote (CallUpdate (example_pool\<lparr>ResourceVersion := ''7''\<rparr>))],
           remote = [(''test'', example_pool\<lparr>ResourceVersion := ''8''\<rparr>)]\<rparr>)
   \<and> resourceIPPoolUpdate fake_meta (vxlan_data\<lparr>Id_str := ''test'', metadata_0_resource_version := ''7''\<rparr>)
     (world0 [(''test'', example_pool\<lparr>ResourceVersion := ''7''\<rparr>)]) =
     Inr ([], vxlan_data\<lparr>Id_str := ''test'', metadata_0_resource_version := ''7''\<rparr>,
          \<lparr>locked = False, trace = [Remote (CallUpdate (vxlan_pool\<lparr>ResourceVersion := ''7''\<rparr>))],
           remote = [(''test'', vxlan_pool\<lparr>ResourceVersion := ''71''\<rparr>)]\<rparr>)"
proof -
  let ?d = "example_data\<lparr>Id_str := ''old'', metadata_0_resource_version := ''7''\<rparr>"
  let ?v = "vxlan_data\<lparr>Id_str := ''test'', metadata_0_resource_version := ''7''\<rparr>"
  have e_pool: "example_pool\<lparr>ResourceVersion := ''7''\<rparr> =
           \<lparr>Name = metadata_0_name ?d,
            ResourceVersion = metadata_0_resource_version ?d,
            Annotations = [(''owner'', ''net'')],
            Spec = \<lparr>CIDR = spec_0_cidr ?d,
                    VXLANMode = VXLANModeOf
                      (if spec_0_vxlan_mode ?d = ''Always'' then ''Always''
                       else if spec_0_vxlan_mode ?d = ''CrossSubnet'' then ''CrossSubnet''
                       else ''Never''),
                    IPIPMode = IPIPModeOf
                      (if spec_0_ipip_mode ?d = ''Always'' then ''Always''
                       else if spec_0_ipip_mode ?d = ''CrossSubnet'' then ''CrossSubnet''
                       else ''Never''),
                    NATOutgoing = spec_0_nat_outgoing ?d,
                    Disabled = spec_0_disabled ?d,
                    DisableBGPExport = spec_0_disable_bgp_export ?d,
                    BlockSize = spec_0_block_size ?d\<rparr>\<rparr>"
    by (simp add: example_data_def example_pool_def)
  have v_pool: "vxlan_pool\<lparr>ResourceVersion := ''7''\<rparr> =
           \<lparr>Name = metadata_0_name ?v,
            ResourceVersion = metadata_0_resource_version ?v,
            Annotations = [(''owner'', ''net'')],
            Spec = \<lparr>CIDR = spec_0_cidr ?v,
                    VXLANMode = VXLANModeOf
                      (if spec_0_vxlan_mode ?v = ''Always'' then ''Always''
                       else if spec_0_vxlan_mode ?v = ''CrossSubnet'' then ''CrossSubnet''
                       else ''Never''),
                    IPIPMode = IPIPModeOf
                      (if spec_0_ipip_mode ?v = ''Always'' then ''Always''
                       else if spec_0_ipip_mode ?v = ''CrossSubnet'' then ''CrossSubnet''
                       else ''Never''),
                    NATOutgoing = spec_0_nat_outgoing ?v,
                    Disabled = spec_0_disabled ?v,
                    DisableBGPExport = spec_0_disable_bgp_export ?v,
                    BlockSize = spec_0_block_size ?v\<rparr>\<rparr>"
    by (simp add: vxlan_data_def vxlan_pool_def)
  have e_ann: "metadata_0_annotations ?d = map (\<lambda>(k, v). (k, VString v)) [(''owner'', ''net'')]"
    by (simp add: example_data_def)
  have v_ann: "metadata_0_annotations ?v = map (\<lambda>(k, v). (k, VString v)) [(''owner'', ''net'')]"
    by (simp add: vxlan_data_def)
  have dist: "distinct (map fst [(''owner'', ''net'')])"
    by simp
  have e_name: "metadata_0_name ?d = ''test''" and v_name: "metadata_0_name ?v = ''test''"
    by (simp_all add: example_data_def vxlan_data_def)
  have ok: "IPPools_Update fake_clientset (remote (world0 [(''test'', example_pool\<lparr>ResourceVersion := ''7''\<rparr>)]))
              (example_pool\<lparr>ResourceVersion := ''7''\<rparr>)
            = (Inr (example_pool\<lparr>ResourceVersion := ''71''\<rparr>),
               [(''test'', example_pool\<lparr>ResourceVersion := ''71''\<rparr>)])"
    by (simp add: fake_clientset_def fake_Update_def world0_def example_pool_def Let_def)
  have stale: "IPPools_Update fake_clientset (remote (world0 [(''test'', example_pool\<lparr>ResourceVersion := ''8''\<rparr>)]))
              (example_pool\<lparr>ResourceVersion := ''7''\<rparr>)
            = (Inl (Conflict ''test''), [(''test'', example_pool\<lparr>ResourceVersion := ''8''\<rparr>)])"
    by (simp add: fake_clientset_def fake_Update_def world0_def example_pool_def Let_def)
  have vx: "IPPools_Update fake_clientset (remote (world0 [(''test'', example_pool\<lparr>ResourceVersion := ''7''\<rparr>)]))
              (vxlan_pool\<lparr>ResourceVersion := ''7''\<rparr>)
            = (Inr (vxlan_pool\<lparr>ResourceVersion := ''71''\<rparr>),
               [(''test'', vxlan_pool\<lparr>ResourceVersion := ''71''\<rparr>)])"
    by (simp add: fake_clientset_def fake_Update_def world0_def example_pool_def vxlan_pool_def Let_def)
  note e = update_submits_full_replacement [OF fake_meta_client e_ann dist e_pool]
  note v = update_submits_full_replacement [OF fake_meta_client v_ann dist v_pool]
  from e [of "world0 [(''test'', example_pool\<lparr>ResourceVersion := ''7''\<rparr>)]"] ok
  have 1: "resourceIPPoolUpdate fake_meta ?d (world0 [(''test'', example_pool\<lparr>ResourceVersion := ''7''\<rparr>)]) =
     Inr ([], example_data\<lparr>Id_str := ''test'', metadata_0_resource_version := ''7''\<rparr>,
          \<lparr>locked = False, trace = [Remote (CallUpdate (example_pool\<lparr>ResourceVersion := ''7''\<rparr>))],
           remote = [(''test'', example_pool\<lparr>ResourceVersion := ''71''\<rparr>)]\<rparr>)"
    by (simp add: e_name world0_def)
  from e [of "world0 [(''test'', example_pool\<lparr>ResourceVersion := ''8''\<rparr>)]"] stale
  have 2: "resourceIPPoolUpdate fake_meta ?d (world0 [(''test'', example_pool\<lparr>ResourceVersion := ''8''\<rparr>)]) =
     Inr (FromErr (Conflict ''test''), ?d,
          \<lparr>locked = False, trace = [Remote (CallUpdate (example_pool\<lparr>ResourceVersion := ''7''\<rparr>))],
           remote = [(''test'', example_pool\<lparr>ResourceVersion := ''8''\<rparr>)]\<rparr>)"
    by (simp add: world0_def)
  from v [of "world0 [(''test'', example_pool\<lparr>ResourceVersion := ''7''\<rparr>)]"] vx
  have 3: "resourceIPPoolUpdate fake_meta ?v (world0 [(''test'', example_pool\<lparr>ResourceVersion := ''7''\<rparr>)]) =
     Inr ([], vxlan_data\<lparr>Id_str := ''test'', metadata_0_resource_version := ''7''\<rparr>,
          \<lparr>locked = False, trace = [Remote (CallUpdate (vxlan_pool\<lparr>ResourceVersion := ''7''\<rparr>))],
           remote = [(''test'', vxlan_pool\<lparr>ResourceVersion := ''71''\<rparr>)]\<rparr>)"
    by (simp add: v_name world0_def) (simp add: vxlan_data_def)
  from 1 2 3 show ?thesis by simp
qed

text \<open>
  Claim C6. With the client handle obtained, \<open>resourceIPPoolDelete\<close> makes exactly one
  remote call, the Delete by name, with no fetch before it. The diagnostics are the
  error of that call as it came, or none, and the resource data, the identifier
  included, is returned unchanged in either case, as it is by every invocation.
\<close>

theorem delete_forwards_remote_error:
  assumes "GetCalicoConfiguration m = Inr p"
  shows "(\<forall>res s. IPPools_Delete p (remote w) (metadata_0_name d) = (res, s) \<longrightarrow>
           resourceIPPoolDelete m d w =
             (case res of Some err \<Rightarrow> FromErr err | None \<Rightarrow> [],
              d,
              w\<lparr>trace := trace w @ [Remote (CallDelete (metadata_0_name d))], remote := s\<rparr>))
       \<and> fst (snd (resourceIPPoolDelete m d w)) = d"
proof -
  obtain res s where de: "IPPools_Delete p (remote w) (metadata_0_name d) = (res, s)"
    by (cases "IPPools_Delete p (remote w) (metadata_0_name d)")
  from resourceIPPoolDelete_eq [OF assms de] de show ?thesis by simp
qed

theorem delete_forwards_remote_error_witness:
  "resourceIPPoolDelete fake_meta (example_data\<lparr>Id_str := ''test''\<rparr>) (world0 []) =
     (FromErr (NotFound ''test''), example_data\<lparr>Id_str := ''test''\<rparr>,
      \<lparr>locked = False, trace = [Remote (CallDelete ''test'')], remote = []\<rparr>)"
proof -
  have absent: "IPPools_Delete fake_clientset (remote (world0 []))
                  (metadata_0_name (example_data\<lparr>Id_str := ''test''\<rparr>)) = (Some (NotFound ''test''), [])"
    by (simp add: fake_clientset_def fake_Delete_def world0_def example_data_def)
  from delete_forwards_remote_error [OF fake_meta_client,
      of "world0 []" "example_data\<lparr>Id_str := ''test''\<rparr>"] absent
  show ?thesis
    by (simp add: world0_def) (simp add: example_data_def)
qed

text \<open>
  Claim C10. Whenever \<open>resourceIPPoolCreate\<close> or \<open>resourceIPPoolUpdate\<close> returns without
  diagnostics, the resource data it leaves is the one it was given with the identifier
  set to the locally configured name: the result does not mention the server's reply, so
  the stored resource_version and every other field are as before. And a successful
  remote call, whatever object it replies with, leads to exactly this return.
\<close>

theorem write_discards_server_reply:
  "(\<forall>d' w'. resourceIPPoolCreate m d w = Inr ([], d', w') \<longrightarrow>
       d' = d\<lparr>Id_str := metadata_0_name d\<rparr>
       \<and> metadata_0_resource_version d' = metadata_0_resource_version d)
   \<and> (\<forall>d' w'. resourceIPPoolUpdate m d w = Inr ([], d', w') \<longrightarrow>
       d' = d\<lparr>Id_str := metadata_0_name d\<rparr>
       \<and> metadata_0_resource_version d' = metadata_0_resource_version d)
   \<and> (\<forall>p annotations reply s.
         GetCalicoConfiguration m = Inr p
         \<and> expandStringMap (metadata_0_annotations d) = Inr annotations
         \<and> IPPools_Create p (remote w) (pool_from_configuration d annotations) = (Inr reply, s) \<longrightarrow>
         (\<exists>w'. resourceIPPoolCreate m d w = Inr ([], d\<lparr>Id_str := metadata_0_name d\<rparr>, w')))
   \<and> (\<forall>p annotations reply s.
         GetCalicoConfiguration m = Inr p
         \<and> expandStringMap (metadata_0_annotations d) = Inr annotations
         \<and> IPPools_Update p (remote w) (pool_from_configuration d annotations) = (Inr reply, s) \<longrightarrow>
         (\<exists>w'. resourceIPPoolUpdate m d w = Inr ([], d\<lparr>Id_str := metadata_0_name d\<rparr>, w')))"
proof -
  have 1: "\<forall>d' w'. resourceIPPoolCreate m d w = Inr ([], d', w') \<longrightarrow>
       d' = d\<lparr>Id_str := metadata_0_name d\<rparr>
       \<and> metadata_0_resource_version d' = metadata_0_resource_version d"
    by (auto simp: resourceIPPoolCreate_def setIPPoolAttributes_eq
        pool_from_configuration_def FromErr_def SetId_def
        split: sum.splits option.splits prod.splits)
  have 2: "\<forall>d' w'. resourceIPPoolUpdate m d w = Inr ([], d', w') \<longrightarrow>
       d' = d\<lparr>Id_str := metadata_0_name d\<rparr>
       \<and> metadata_0_resource_version d' = metadata_0_resource_version d"
    by (auto simp: resourceIPPoolUpdate_def setIPPoolAttributes_eq
        pool_from_configuration_def FromErr_def SetId_def
        split: sum.splits option.splits prod.splits)
  have 3: "\<forall>p annotations reply s.
         GetCalicoConfiguration m = Inr p
         \<and> expandStringMap (metadata_0_annotations d) = Inr annotations
         \<and> IPPools_Create p (remote w) (pool_from_configuration d annotations) = (Inr reply, s) \<longrightarrow>
         (\<exists>w'. resourceIPPoolCreate m d w = Inr ([], d\<lparr>Id_str := metadata_0_name d\<rparr>, w'))"
    by (auto simp: resourceIPPoolCreate_eq)
  have 4: "\<forall>p annotations reply s.
         GetCalicoConfiguration m = Inr p
         \<and> expandStringMap (metadata_0_annotations d) = Inr annotations
         \<and> IPPools_Update p (remote w) (pool_from_configuration d annotations) = (Inr reply, s) \<longrightarrow>
         (\<exists>w'. resourceIPPoolUpdate m d w = Inr ([], d\<lparr>Id_str := metadata_0_name d\<rparr>, w'))"
    by (auto simp: resourceIPPoolUpdate_eq)
  from 1 2 3 4 show ?thesis by blast
qed

theorem write_discards_server_reply_witness:
  "IPPools_Create stamping_clientset () example_pool
     = (Inr (example_pool\<lparr>Name := ''srv-test'', ResourceVersion := ''42''\<rparr>), ())
   \<and> (\<exists>w'. resourceIPPoolCreate stamping_meta example_data \<lparr>locked = False, trace = [], remote = ()\<rparr>
            = Inr ([], example_data\<lparr>Id_str := ''test''\<rparr>, w'))
   \<and> IPPools_Update stamping_clientset () example_pool
     = (Inr (example_pool\<lparr>Name := ''srv-test'', ResourceVersion := ''43''\<rparr>), ())
   \<and> (\<exists>w'. resourceIPPoolUpdate stamping_meta example_data \<lparr>locked = False, trace = [], remote = ()\<rparr>
            = Inr ([], example_data\<lparr>Id_str := ''test''\<rparr>, w'))"
proof -
  let ?w = "\<lparr>locked = False, trace = [], remote = ()\<rparr>"
  have c: "GetCalicoConfiguration stamping_meta = Inr stamping_clientset"
    by (simp add: stamping_meta_def)
  have ann: "expandStringMap (metadata_0_annotations example_data) = Inr [(''owner'', ''net'')]"
    by (simp add: example_data_def expandStringMap_def)
  have cr: "IPPools_Create stamping_clientset () example_pool
     = (Inr (example_pool\<lparr>Name := ''srv-test'', ResourceVersion := ''42''\<rparr>), ())"
    by (simp add: stamping_clientset_def example_pool_def)
  have up: "IPPools_Update stamping_clientset () example_pool
     = (Inr (example_pool\<lparr>Name := ''srv-test'', ResourceVersion := ''43''\<rparr>), ())"
    by (simp add: stamping_clientset_def example_pool_def)
  have name: "metadata_0_name example_data = ''test''"
    by (simp add: example_data_def)
  from write_discards_server_reply [of stamping_meta example_data ?w] c ann cr up
  have "(\<exists>w'. resourceIPPoolCreate stamping_meta example_data ?w
            = Inr ([], example_data\<lparr>Id_str := metadata_0_name example_data\<rparr>, w'))
      \<and> (\<exists>w'. resourceIPPoolUpdate stamping_meta example_data ?w
            = Inr ([], example_data\<lparr>Id_str := metadata_0_name example_data\<rparr>, w'))"
    by (simp add: example_pool_built)
  with cr up name show ?thesis by simp
qed

section \<open>The lock\<close>

lemma resourceIPPoolCreate_trace:
  "resourceIPPoolCreate m d w = Inr (dg, d', w') \<Longrightarrow>
   locked w' = locked w \<and> (new_events w w' = [] \<or> (\<exists>pool. new_events w w' = [Remote (CallCreate pool)]))"
  by (auto simp: resourceIPPoolCreate_def remote_Create_def new_events_def
      split: sum.splits option.splits prod.splits)

lemma resourceIPPoolUpdate_trace:
  "resourceIPPoolUpdate m d w = Inr (dg, d', w') \<Longrightarrow>
   locked w' = locked w \<and> (new_events w w' = [] \<or> (\<exists>pool. new_events w w' = [Remote (CallUpdate pool)]))"
  by (auto simp: resourceIPPoolUpdate_def remote_Update_def new_events_def
      split: sum.splits option.splits prod.splits)

lemma resourceIPPoolDelete_trace:
  "resourceIPPoolDelete m d w = (dg, d', w') \<Longrightarrow>
   locked w' = locked w
   \<and> (new_events w w' = [] \<or> new_events w w' = [Remote (CallDelete (metadata_0_name d))])"
  by (auto simp: resourceIPPoolDelete_def remote_Delete_def new_events_def Let_def
      split: sum.splits option.splits prod.splits)

text \<open>
  Claim C9. \<open>getIPPool\<close> adds to the trace the lock, the fetch and the unlock, in this
  order, whether the fetch succeeds or fails, so the fetch is made with the mutex held
  and the mutex is free afterwards. Every remote call of the existence check and of the
  read is such a fetch. Create, update and delete add no lock event, leave the mutex as
  they found it, and from a free mutex make their remote call with the mutex free.
\<close>

theorem reads_hold_lock_writes_do_not:
  "(\<forall>res s. IPPools_Get p (remote w) name = (res, s) \<longrightarrow>
      getIPPool m p name w =
        (res, w\<lparr>locked := False,
                 trace := trace w @ [MutexLock, Remote (CallGet name), MutexUnlock],
                 remote := s\<rparr>))
   \<and> held_at_calls (locked w) (new_events w (snd (getIPPool m p name w))) = [(CallGet name, True)]
   \<and> (\<forall>(c, h) \<in> set (held_at_calls (locked w) (new_events w (snd (resourceIPPoolExists m d w)))). h)
   \<and> (\<forall>(c, h) \<in> set (held_at_calls (locked w) (new_events w (snd (snd (resourceIPPoolRead m d w))))). h)
   \<and> (\<forall>dg d' w'. resourceIPPoolCreate m d w = Inr (dg, d', w') \<longrightarrow>
         MutexLock \<notin> set (new_events w w') \<and> locked w' = locked w
         \<and> (\<forall>(c, h) \<in> set (held_at_calls False (new_events w w')). \<not> h))
   \<and> (\<forall>dg d' w'. resourceIPPoolUpdate m d w = Inr (dg, d', w') \<longrightarrow>
         MutexLock \<notin> set (new_events w w') \<and> locked w' = locked w
         \<and> (\<forall>(c, h) \<in> set (held_at_calls False (new_events w w')). \<not> h))
   \<and> (\<forall>dg d' w'. resourceIPPoolDelete m d w = (dg, d', w') \<longrightarrow>
         MutexLock \<notin> set (new_events w w') \<and> locked w' = locked w
         \<and> (\<forall>(c, h) \<in> set (held_at_calls False (new_events w w')). \<not> h))"
proof -
  have 1: "\<forall>res s. IPPools_Get p (remote w) name = (res, s) \<longrightarrow>
      getIPPool m p name w =
        (res, w\<lparr>locked := False,
                 trace := trace w @ [MutexLock, Remote (CallGet name), MutexUnlock],
                 remote := s\<rparr>)"
    by (simp add: getIPPool_eq)
  have 2: "held_at_calls (locked w) (new_events w (snd (getIPPool m p name w))) = [(CallGet name, True)]"
    by (simp add: getIPPool_trace)
  have 3: "\<forall>(c, h) \<in> set (held_at_calls (locked w) (new_events w (snd (resourceIPPoolExists m d w)))). h"
    using resourceIPPoolExists_trace [of w m d] by auto
  have 4: "\<forall>(c, h) \<in> set (held_at_calls (locked w) (new_events w (snd (snd (resourceIPPoolRead m d w))))). h"
    using resourceIPPoolRead_trace [of w m d] by auto
  have 5: "\<forall>dg d' w'. resourceIPPoolCreate m d w = Inr (dg, d', w') \<longrightarrow>
         MutexLock \<notin> set (new_events w w') \<and> locked w' = locked w
         \<and> (\<forall>(c, h) \<in> set (held_at_calls False (new_events w w')). \<not> h)"
    using resourceIPPoolCreate_trace [of m d w] by fastforce
  have 6: "\<forall>dg d' w'. resourceIPPoolUpdate m d w = Inr (dg, d', w') \<longrightarrow>
         MutexLock \<notin> set (new_events w w') \<and> locked w' = locked w
         \<and> (\<forall>(c, h) \<in> set (held_at_calls False (new_events w w')). \<not> h)"
    using resourceIPPoolUpdate_trace [of m d w] by fastforce
  have 7: "\<forall>dg d' w'. resourceIPPoolDelete m d w = (dg, d', w') \<longrightarrow>
         MutexLock \<notin> set (new_events w w') \<and> locked w' = locked w
         \<and> (\<forall>(c, h) \<in> set (held_at_calls False (new_events w w')). \<not> h)"
    using resourceIPPoolDelete_trace [of m d w] by fastforce
  from 1 2 3 4 5 6 7 show ?thesis by blast
qed


theorem reads_hold_lock_writes_do_not_witness:
  "getIPPool fake_meta fake_clientset ''test'' (world0 []) =
     (Inl (NotFound ''test''),
      \<lparr>locked = False, trace = [MutexLock, Remote (CallGet ''test''), MutexUnlock], remote = []\<rparr>)
   \<and> (CallGet ''test'', True) \<in> set (held_at_calls False
         (new_events (world0 []) (snd (resourceIPPoolExists fake_meta example_data (world0 [])))))
   \<and> (CallGet ''test'', True) \<in> set (held_at_calls False
         (new_events (world0 []) (snd (snd (resourceIPPoolRead fake_meta example_data (world0 []))))))
   \<and> (\<exists>dg d' w'. resourceIPPoolCreate fake_meta example_data (world0 []) = Inr (dg, d', w')
         \<and> new_events (world0 []) w' = [Remote (CallCreate example_pool)]
         \<and> MutexLock \<notin> set (new_events (world0 []) w') \<and> \<not> locked w')
   \<and> (\<exists>dg d' w'. resourceIPPoolUpdate fake_meta example_data (world0 []) = Inr (dg, d', w')
         \<and> new_events (world0 []) w' = [Remote (CallUpdate example_pool)]
         \<and> MutexLock \<notin> set (new_events (world0 []) w') \<and> \<not> locked w')
   \<and> (\<exists>dg d' w'. resourceIPPoolDelete fake_meta example_data (world0 []) = (dg, d', w')
         \<and> new_events (world0 []) w' = [Remote (CallDelete ''test'')]
         \<and> MutexLock \<notin> set (new_events (world0 []) w') \<and> \<not> locked w')"
proof -
  note inst = reads_hold_lock_writes_do_not
    [of fake_clientset "world0 []" "''test''" fake_meta example_data]
  have name: "metadata_0_name example_data = ''test''"
    by (simp add: example_data_def)
  have free: "locked (world0 []) = False" and tr: "trace (world0 []) = []"
    by (simp_all add: world0_def)
  have get: "IPPools_Get fake_clientset (remote (world0 [])) ''test'' = (Inl (NotFound ''test''), [])"
    by (simp add: fake_clientset_def fake_Get_def world0_def)
  from inst get have 1: "getIPPool fake_meta fake_clientset ''test'' (world0 []) =
     (Inl (NotFound ''test''),
      \<lparr>locked = False, trace = [MutexLock, Remote (CallGet ''test''), MutexUnlock], remote = []\<rparr>)"
    by (simp add: world0_def)
  have get': "IPPools_Get fake_clientset (remote (world0 [])) (metadata_0_name example_data)
                = (Inl (NotFound ''test''), [])"
    using get by (simp add: name)
  have 2: "(CallGet ''test'', True) \<in> set (held_at_calls False
         (new_events (world0 []) (snd (resourceIPPoolExists fake_meta example_data (world0 [])))))"
    by (simp add: resourceIPPoolExists_eq [OF fake_meta_client get'] name)
  have 3: "(CallGet ''test'', True) \<in> set (held_at_calls False
         (new_events (world0 []) (snd (snd (resourceIPPoolRead fake_meta example_data (world0 []))))))"
    by (simp add: resourceIPPoolRead_fetch_fails [OF fake_meta_client get'] name)
  have ann: "expandStringMap (metadata_0_annotations example_data) = Inr [(''owner'', ''net'')]"
    by (simp add: example_data_def expandStringMap_def)
  obtain res s where cr: "IPPools_Create fake_clientset (remote (world0 []))
      (pool_from_configuration example_data [(''owner'', ''net'')]) = (res, s)"
    by (cases "IPPools_Create fake_clientset (remote (world0 []))
      (pool_from_configuration example_data [(''owner'', ''net'')])")
  obtain res' s' where up: "IPPools_Update fake_clientset (remote (world0 []))
      (pool_from_configuration example_data [(''owner'', ''net'')]) = (res', s')"
    by (cases "IPPools_Update fake_clientset (remote (world0 []))
      (pool_from_configuration example_data [(''owner'', ''net'')])")
  obtain res'' s'' where de: "IPPools_Delete fake_clientset (remote (world0 []))
      (metadata_0_name example_data) = (res'', s'')"
    by (cases "IPPools_Delete fake_clientset (remote (world0 [])) (metadata_0_name example_data)")
  note c = resourceIPPoolCreate_eq [OF fake_meta_client ann cr]
  note u = resourceIPPoolUpdate_eq [OF fake_meta_client ann up]
  note dl = resourceIPPoolDelete_eq [OF fake_meta_client de]
  have 4: "\<exists>dg d' w'. resourceIPPoolCreate fake_meta example_data (world0 []) = Inr (dg, d', w')
         \<and> new_events (world0 []) w' = [Remote (CallCreate example_pool)]
         \<and> MutexLock \<notin> set (new_events (world0 []) w') \<and> \<not> locked w'"
    using inst c free by (auto simp: example_pool_built)
  have 5: "\<exists>dg d' w'. resourceIPPoolUpdate fake_meta example_data (world0 []) = Inr (dg, d', w')
         \<and> new_events (world0 []) w' = [Remote (CallUpdate example_pool)]
         \<and> MutexLock \<notin> set (new_events (world0 []) w') \<and> \<not> locked w'"
    using inst u free by (auto simp: example_pool_built)
  have 6: "\<exists>dg d' w'. resourceIPPoolDelete fake_meta example_data (world0 []) = (dg, d', w')
         \<and> new_events (world0 []) w' = [Remote (CallDelete ''test'')]
         \<and> MutexLock \<notin> set (new_events (world0 []) w') \<and> \<not> locked w'"
    using inst dl free by (auto simp: name)
  from 1 2 3 4 5 6 show ?thesis by blast
qed


section \<open>The two encapsulation modes in the schema\<close>







end
